theory Spec2Isabelle
  imports Main "HOL-Library.Sublist"
begin

section \<open>Data model\<close>

text \<open>
  The form's \<^verbatim>\<open>DeviceSpecs\<close> interface (second revision of the page and of the form,
  the one with \<^verbatim>\<open>language\<close> and \<^verbatim>\<open>version\<close>). Every field is a free JavaScript string
  at the type level; the selectable options only restrict what the form can produce.
\<close>

record DeviceSpecs =
  language :: string
  version :: string
  os :: string
  gpu :: string
  ram :: string
  packageManager :: string
  docker :: bool

text \<open>One entry of \<^verbatim>\<open>alternatives\<close>; \<^verbatim>\<open>url: null\<close> is \<open>None\<close>.\<close>

record Alternative =
  name :: string
  description :: string
  url :: "string option"

text \<open>
  The object returned by \<^verbatim>\<open>getLanguageConfig\<close>, and the \<^verbatim>\<open>mockResult\<close> object that
  spreads it and adds four fields.
\<close>

record LanguageConfig =
  techStack :: "string list"
  venvCommand :: string
  installCommand :: string
  runCommand :: string
  accessUrl :: string
  envSetup :: "string list"
  troubleshooting :: "string list"

record SetupBundle = LanguageConfig +
  compatibility :: string
  estimatedTime :: string
  modelSize :: string
  alternatives :: "Alternative list"

section \<open>The resolver\<close>

text \<open>The single backslash character of the Windows path in the python case.\<close>

definition backslash :: string where
  "backslash = [CHR 0x5C]"

definition pythonConfig :: "DeviceSpecs \<Rightarrow> LanguageConfig" where
  "pythonConfig specs =
     \<lparr> techStack = [''Transformers'', ''Gradio'', ''PyTorch'', ''NumPy''],
       venvCommand =
         (if packageManager specs = ''conda''
          then ''conda create -n hf-app python='' @ version specs @ ''\<newline>conda activate hf-app''
          else ''python -m venv hf-app\<newline>source hf-app/bin/activate  # On Windows: hf-app''
               @ backslash @ ''Scripts'' @ backslash @ ''activate''),
       installCommand =
         (if packageManager specs = ''conda''
          then ''conda install pytorch transformers gradio -c pytorch -c huggingface''
          else ''pip install torch transformers gradio accelerate''),
       runCommand = ''python app.py'',
       accessUrl = ''http://localhost:7860'',
       envSetup =
         [''Ensure you have at least 4GB of free disk space for models'',
          ''Set CUDA_VISIBLE_DEVICES if you have multiple GPUs'',
          ''Configure Hugging Face token if using gated models'',
          ''Install Git LFS for large model files if needed''],
       troubleshooting =
         [''If CUDA out of memory, try reducing batch size or model precision'',
          ''For slow downloads, consider using a mirror or cache'',
          ''On Windows, you might need Visual Studio Build Tools'',
          ''For M1/M2 Macs, use MPS backend for acceleration''] \<rparr>"

definition javascriptConfig :: "DeviceSpecs \<Rightarrow> LanguageConfig" where
  "javascriptConfig specs =
     \<lparr> techStack = [''Transformers.js'', ''Node.js'', ''Express'', ''TensorFlow.js''],
       venvCommand =
         (if packageManager specs = ''yarn'' then ''yarn init -y'' else ''npm init -y''),
       installCommand =
         (if packageManager specs = ''yarn''
          then ''yarn add @huggingface/transformers @huggingface/hub express''
          else ''npm install @huggingface/transformers @huggingface/hub express''),
       runCommand = ''node server.js'',
       accessUrl = ''http://localhost:3000'',
       envSetup =
         [''Ensure Node.js '' @ version specs @ '' is installed'',
          ''Install dependencies with your package manager'',
          ''Configure environment variables in .env file'',
          ''Set up CORS if accessing from browser''],
       troubleshooting =
         [''If WebGPU not available, models will fallback to CPU'',
          ''Large models may require significant RAM'',
          ''Use model quantization for better performance'',
          ''Check browser compatibility for WebGL/WebGPU''] \<rparr>"

definition rConfig :: "DeviceSpecs \<Rightarrow> LanguageConfig" where
  \<open>rConfig specs =
     \<lparr> techStack = [''reticulate'', ''torch'', ''transformers (via Python)'', ''Shiny''],
       venvCommand = ''# R environment setup\<newline>install.packages('renv')\<newline>renv::init()'',
       installCommand =
         ''install.packages(c("reticulate", "shiny"))\<newline>reticulate::py_install(c("torch", "transformers"))'',
       runCommand = ''Rscript app.R'',
       accessUrl = ''http://localhost:3838'',
       envSetup =
         [''Install R and required packages'',
          ''Configure reticulate to use Python environment'',
          ''Install Python dependencies via reticulate'',
          ''Set up Shiny server for web interface''],
       troubleshooting =
         [''Ensure Python and R can communicate via reticulate'',
          ''Install system dependencies for torch compilation'',
          ''Configure PATH variables for Python/R integration'',
          ''Use virtual environments to avoid conflicts''] \<rparr>\<close>

definition juliaConfig :: "DeviceSpecs \<Rightarrow> LanguageConfig" where
  \<open>juliaConfig specs =
     \<lparr> techStack = [''MLJ.jl'', ''Transformers.jl'', ''Flux.jl'', ''PlutoUI''],
       venvCommand = ''julia --project=.\<newline>using Pkg\<newline>Pkg.activate(".")'',
       installCommand = ''Pkg.add(["MLJ", "Transformers", "Flux", "PlutoUI"])'',
       runCommand = ''julia app.jl'',
       accessUrl = ''http://localhost:8000'',
       envSetup =
         [''Ensure Julia '' @ version specs @ '' is installed'',
          ''Create and activate project environment'',
          ''Install required Julia packages'',
          ''Configure CUDA.jl for GPU support if available''],
       troubleshooting =
         [''Precompile packages to reduce startup time'',
          ''Use BinaryBuilder.jl for system dependencies'',
          ''Configure JULIA_NUM_THREADS for parallelization'',
          ''Check CUDA installation for GPU acceleration''] \<rparr>\<close>

definition rustConfig :: "DeviceSpecs \<Rightarrow> LanguageConfig" where
  "rustConfig specs =
     \<lparr> techStack = [''Candle'', ''Tokenizers'', ''Axum'', ''Serde''],
       venvCommand = ''cargo init hf-app\<newline>cd hf-app'',
       installCommand = ''cargo add candle-core candle-nn tokenizers axum serde'',
       runCommand = ''cargo run'',
       accessUrl = ''http://localhost:8080'',
       envSetup =
         [''Ensure Rust '' @ version specs @ '' is installed'',
          ''Initialize Cargo project'',
          ''Add required dependencies to Cargo.toml'',
          ''Configure features for CUDA support if needed''],
       troubleshooting =
         [''Compile with --release flag for better performance'',
          ''Install CUDA toolkit for GPU support'',
          ''Use cross-compilation for different targets'',
          ''Enable LTO for smaller binaries''] \<rparr>"

definition defaultConfig :: LanguageConfig where
  "defaultConfig =
     \<lparr> techStack = [''Generic ML Framework''],
       venvCommand = ''# Environment setup varies by language'',
       installCommand = ''# Install language-specific dependencies'',
       runCommand = ''# Run application'',
       accessUrl = ''http://localhost:8000'',
       envSetup = [''Configure your development environment''],
       troubleshooting = [''Check documentation for language-specific issues''] \<rparr>"

text \<open>
  \<^verbatim>\<open>getLanguageConfig\<close>: the \<^verbatim>\<open>switch (specs.language)\<close> with its five cases and the
  \<^verbatim>\<open>default\<close>; each case body is one of the objects above.
\<close>

definition getLanguageConfig :: "DeviceSpecs \<Rightarrow> LanguageConfig" where
  "getLanguageConfig specs =
     (if language specs = ''python'' then pythonConfig specs
      else if language specs = ''javascript'' then javascriptConfig specs
      else if language specs = ''r'' then rConfig specs
      else if language specs = ''julia'' then juliaConfig specs
      else if language specs = ''rust'' then rustConfig specs
      else defaultConfig)"

text \<open>
  \<^verbatim>\<open>analyzeRepository\<close>. The awaited promise is a timer that always resolves, and the body
  has no \<^verbatim>\<open>throw\<close>; the value the returned promise resolves to is \<^verbatim>\<open>mockResult\<close>, the
  spread of the language configuration followed by the four added fields. The parameter
  \<^verbatim>\<open>repoUrl\<close> is kept although the body never reads it.
\<close>

definition analyzeRepository :: "string \<Rightarrow> DeviceSpecs \<Rightarrow> SetupBundle" where
  "analyzeRepository repoUrl specs =
     (let config = getLanguageConfig specs in
      \<lparr> techStack = techStack config,
        venvCommand = venvCommand config,
        installCommand = installCommand config,
        runCommand = runCommand config,
        accessUrl = accessUrl config,
        envSetup = envSetup config,
        troubleshooting = troubleshooting config,
        compatibility = ''95%'',
        estimatedTime =
          (if language specs = ''rust'' then ''10-15 min''
           else if language specs = ''julia'' then ''8-12 min''
           else ''5-10 min''),
        modelSize = (if language specs = ''javascript'' then ''200 MB'' else ''1.2 GB''),
        alternatives =
          [\<lparr> name = (if language specs = ''python'' then ''Google Colab'' else ''CodeSandbox''),
             description =
               (if language specs = ''python'' then ''Run in the cloud with free GPU access''
                else ''Run in browser environment''),
             url =
               Some (if language specs = ''python'' then ''https://colab.research.google.com''
                     else ''https://codesandbox.io'') \<rparr>,
           \<lparr> name = ''Hugging Face Spaces'',
             description = ''Deploy directly on Hugging Face infrastructure'',
             url = Some ''https://huggingface.co/spaces'' \<rparr>,
           \<lparr> name = ''Docker Container'',
             description = ''Use pre-built container with all dependencies'',
             url = None \<rparr>] \<rparr>)"

section \<open>The form\<close>

text \<open>
  The two pieces of state of \<^verbatim>\<open>SetupForm\<close>: \<^verbatim>\<open>repoUrl\<close> and \<^verbatim>\<open>specs\<close>, with their
  initial values.
\<close>

record FormState =
  repoUrl :: string
  specs :: DeviceSpecs

definition initialForm :: FormState where
  "initialForm =
     \<lparr> repoUrl = '''',
       specs = \<lparr> language = '''', version = '''', os = '''', gpu = ''none'', ram = '''',
                 packageManager = '''', docker = False \<rparr> \<rparr>"

text \<open>
  The \<^verbatim>\<open>onValueChange\<close> handler of the language select:
  \<^verbatim>\<open>setSpecs({ ...specs, language: value, version: "", packageManager: "" })\<close>.
\<close>

definition onLanguageChange :: "string \<Rightarrow> FormState \<Rightarrow> FormState" where
  "onLanguageChange v st =
     st\<lparr> specs := (specs st)\<lparr> language := v, version := '''', packageManager := '''' \<rparr> \<rparr>"

text \<open>The other handlers each overwrite one field.\<close>

definition setRepoUrl :: "string \<Rightarrow> FormState \<Rightarrow> FormState" where
  "setRepoUrl v st = st\<lparr> repoUrl := v \<rparr>"

definition onVersionChange :: "string \<Rightarrow> FormState \<Rightarrow> FormState" where
  "onVersionChange v st = st\<lparr> specs := (specs st)\<lparr> version := v \<rparr> \<rparr>"

definition onOsChange :: "string \<Rightarrow> FormState \<Rightarrow> FormState" where
  "onOsChange v st = st\<lparr> specs := (specs st)\<lparr> os := v \<rparr> \<rparr>"

definition onGpuChange :: "string \<Rightarrow> FormState \<Rightarrow> FormState" where
  "onGpuChange v st = st\<lparr> specs := (specs st)\<lparr> gpu := v \<rparr> \<rparr>"

definition onRamChange :: "string \<Rightarrow> FormState \<Rightarrow> FormState" where
  "onRamChange v st = st\<lparr> specs := (specs st)\<lparr> ram := v \<rparr> \<rparr>"

definition onPackageManagerChange :: "string \<Rightarrow> FormState \<Rightarrow> FormState" where
  "onPackageManagerChange v st = st\<lparr> specs := (specs st)\<lparr> packageManager := v \<rparr> \<rparr>"

definition onDockerChange :: "string \<Rightarrow> FormState \<Rightarrow> FormState" where
  "onDockerChange v st = st\<lparr> specs := (specs st)\<lparr> docker := (v = ''true'') \<rparr> \<rparr>"

text \<open>A JavaScript string is truthy exactly when it is not empty.\<close>

definition truthy :: "string \<Rightarrow> bool" where
  "truthy s = (s \<noteq> [])"

text \<open>
  \<^verbatim>\<open>isFormValid = repoUrl && specs.language && specs.version && specs.os && specs.ram\<close>,
  read as the boolean the \<^verbatim>\<open>disabled\<close> attribute takes it for.
\<close>

definition isFormValid :: "FormState \<Rightarrow> bool" where
  "isFormValid st =
     (truthy (repoUrl st) \<and> truthy (language (specs st)) \<and> truthy (version (specs st))
      \<and> truthy (os (specs st)) \<and> truthy (ram (specs st)))"

text \<open>The submit button's \<^verbatim>\<open>disabled={!isFormValid || isLoading}\<close>.\<close>

definition submitDisabled :: "FormState \<Rightarrow> bool \<Rightarrow> bool" where
  "submitDisabled st isLoading = (\<not> isFormValid st \<or> isLoading)"

text \<open>
  \<^verbatim>\<open>handleSubmit\<close>: the call \<^verbatim>\<open>onAnalyze(repoUrl, specs)\<close> it makes, if any. The handler
  repeats the five-field test and does not look at \<^verbatim>\<open>isLoading\<close>.
\<close>

definition handleSubmit :: "FormState \<Rightarrow> (string \<times> DeviceSpecs) option" where
  "handleSubmit st =
     (if truthy (repoUrl st) \<and> truthy (language (specs st)) \<and> truthy (version (specs st))
         \<and> truthy (os (specs st)) \<and> truthy (ram (specs st))
      then Some (repoUrl st, specs st) else None)"

section \<open>The guide\<close>

subsection \<open>The clone command\<close>

text \<open>
  \<^verbatim>\<open>String.prototype.split\<close> with a one-character separator: the pieces between the
  separators, in order; the result is never empty (the empty string gives one empty
  piece). The accumulator holds the current piece reversed.
\<close>

fun js_split_acc :: "char \<Rightarrow> string \<Rightarrow> string \<Rightarrow> string list" where
  "js_split_acc sep cur [] = [rev cur]"
| "js_split_acc sep cur (c # cs) =
     (if c = sep then rev cur # js_split_acc sep [] cs else js_split_acc sep (c # cur) cs)"

definition js_split :: "char \<Rightarrow> string \<Rightarrow> string list" where
  "js_split sep s = js_split_acc sep [] s"

text \<open>\<^verbatim>\<open>Array.prototype.pop\<close>: the last element, \<^verbatim>\<open>undefined\<close> on an empty array.\<close>

definition js_pop :: "'a list \<Rightarrow> 'a option" where
  "js_pop xs = (if xs = [] then None else Some (last xs))"

text \<open>
  \<^verbatim>\<open>String.prototype.replace\<close> with a string pattern: only the first (leftmost)
  occurrence of the pattern is replaced, wherever it stands.
\<close>

fun js_replace :: "string \<Rightarrow> string \<Rightarrow> string \<Rightarrow> string" where
  "js_replace pat rep [] = (if pat = [] then rep else [])"
| "js_replace pat rep (c # cs) =
     (if prefix pat (c # cs) then rep @ drop (length pat) (c # cs)
      else c # js_replace pat rep cs)"

text \<open>
  \<^verbatim>\<open>repoUrl.split('/').pop()?.replace('.git', '') || 'repo'\<close>: the optional chaining
  passes \<^verbatim>\<open>undefined\<close> on, and \<^verbatim>\<open>||\<close> takes its right side for \<^verbatim>\<open>undefined\<close> and
  for the empty string.
\<close>

definition dirName :: "string \<Rightarrow> string" where
  "dirName u =
     (case map_option (js_replace ''.git'' '''') (js_pop (js_split (CHR ''/'') u)) of
        None \<Rightarrow> ''repo''
      | Some d \<Rightarrow> if truthy d then d else ''repo'')"

text \<open>The command of the "Clone Repository" block.\<close>

definition cloneCommand :: "string \<Rightarrow> string" where
  "cloneCommand u = ''git clone '' @ u @ ''\<newline>cd '' @ dirName u"

text \<open>
  The directory name as the specification words it, for comparison with \<open>dirName\<close>:
  the final \<^verbatim>\<open>/\<close>-separated segment of the URL, without a trailing \<^verbatim>\<open>.git\<close>, and the
  placeholder \<^verbatim>\<open>repo\<close> when nothing is left.
\<close>

definition spec_dirName :: "string \<Rightarrow> string" where
  "spec_dirName u =
     (let seg = last (js_split (CHR ''/'') u);
          d = (if suffix ''.git'' seg then take (length seg - 4) seg else seg)
      in if d = [] then ''repo'' else d)"

subsection \<open>Copying a command\<close>

text \<open>
  A notification passed to \<^verbatim>\<open>toast\<close>; \<open>variant\<close> is \<open>None\<close> when the call gives none.
\<close>

record Toast =
  title :: string
  toastDescription :: string
  variant :: "string option"

text \<open>The outcome of the awaited \<^verbatim>\<open>navigator.clipboard.writeText(text)\<close>.\<close>

datatype ClipboardResult = Resolved | Rejected

text \<open>The only callback the component hands to \<^verbatim>\<open>setTimeout\<close>.\<close>

datatype TimerAction = ClearCopied

text \<open>
  The state the copy operation touches: the \<^verbatim>\<open>copiedCommand\<close> state variable, the
  notifications emitted so far (oldest first), the pending timers with the time in
  milliseconds at which each is due, and the clock.
\<close>

record GuideState =
  copiedCommand :: "string option"
  toasts :: "Toast list"
  timers :: "(nat \<times> TimerAction) list"
  now :: nat

definition initialGuide :: GuideState where
  "initialGuide = \<lparr> copiedCommand = None, toasts = [], timers = [], now = 0 \<rparr>"

text \<open>
  \<^verbatim>\<open>copyToClipboard\<close>, continued from the point where the clipboard promise settles:
  the \<^verbatim>\<open>try\<close> body after the \<^verbatim>\<open>await\<close> when it resolved, the \<^verbatim>\<open>catch\<close> body when it
  rejected.
\<close>

definition copyToClipboard :: "ClipboardResult \<Rightarrow> string \<Rightarrow> string \<Rightarrow> GuideState \<Rightarrow> GuideState" where
  "copyToClipboard r text commandType s =
     (case r of
        Resolved \<Rightarrow>
          s\<lparr> copiedCommand := Some commandType,
             toasts := toasts s @
               [\<lparr> title = ''Copied to clipboard'',
                  toastDescription = commandType @ '' command copied successfully'',
                  variant = None \<rparr>],
             timers := timers s @ [(now s + 2000, ClearCopied)] \<rparr>
      | Rejected \<Rightarrow>
          s\<lparr> toasts := toasts s @
               [\<lparr> title = ''Failed to copy'',
                  toastDescription = ''Could not copy to clipboard'',
                  variant = Some ''destructive'' \<rparr>] \<rparr>)"

text \<open>Running a timer callback: \<^verbatim>\<open>setCopiedCommand(null)\<close>.\<close>

fun runTimer :: "TimerAction \<Rightarrow> GuideState \<Rightarrow> GuideState" where
  "runTimer ClearCopied s = s\<lparr> copiedCommand := None \<rparr>"

text \<open>
  Letting \<open>dt\<close> milliseconds pass with no other event: the timers that are due by then
  run, earliest first (in the order of their creation when due together), and leave
  the queue.
\<close>

definition advance :: "nat \<Rightarrow> GuideState \<Rightarrow> GuideState" where
  "advance dt s =
     (let t = now s + dt;
          due = filter (\<lambda>p. fst p \<le> t) (timers s);
          later = filter (\<lambda>p. \<not> fst p \<le> t) (timers s)
      in fold runTimer (map snd (sort_key fst due)) (s\<lparr> timers := later, now := t \<rparr>))"

text \<open>Whether the block labelled \<open>l\<close> shows the check mark: \<^verbatim>\<open>copiedCommand === title\<close>.\<close>

definition showsCopied :: "string \<Rightarrow> GuideState \<Rightarrow> bool" where
  "showsCopied l s = (copiedCommand s = Some l)"

section \<open>Sample inputs\<close>

text \<open>Form selections used to exercise the theorems below.\<close>

definition goSpecs :: DeviceSpecs where
  "goSpecs =
     \<lparr> language = ''go'', version = ''1.22'', os = ''ubuntu'', gpu = ''none'', ram = ''16gb'',
       packageManager = ''default'', docker = False \<rparr>"

definition condaSpecs :: DeviceSpecs where
  "condaSpecs =
     \<lparr> language = ''python'', version = ''3.10'', os = ''macos'', gpu = ''apple-m1'',
       ram = ''32gb'', packageManager = ''conda'', docker = True \<rparr>"

definition rustSpecs :: DeviceSpecs where
  "rustSpecs =
     \<lparr> language = ''rust'', version = ''1.75'', os = ''arch'', gpu = ''amd-rx-6800'',
       ram = ''64gb'', packageManager = ''cargo'', docker = False \<rparr>"

definition yarnSpecs :: DeviceSpecs where
  "yarnSpecs =
     \<lparr> language = ''javascript'', version = ''20'', os = ''windows11'',
       gpu = ''nvidia-rtx-4090'', ram = ''8gb'', packageManager = ''yarn'', docker = True \<rparr>"

definition renvSpecs :: DeviceSpecs where
  "renvSpecs =
     \<lparr> language = ''r'', version = ''4.3'', os = ''debian'', gpu = ''none'', ram = ''16gb'',
       packageManager = ''renv'', docker = False \<rparr>"

definition pakSpecs :: DeviceSpecs where
  "pakSpecs =
     \<lparr> language = ''r'', version = ''4.1'', os = ''fedora'', gpu = ''none'', ram = ''8gb'',
       packageManager = ''pak'', docker = True \<rparr>"

definition juliaSpecs :: DeviceSpecs where
  "juliaSpecs =
     \<lparr> language = ''julia'', version = ''1.9'', os = ''ubuntu'', gpu = ''nvidia-rtx-3080'',
       ram = ''32gb'', packageManager = ''pkg'', docker = False \<rparr>"

definition pipSpecs :: DeviceSpecs where
  "pipSpecs =
     \<lparr> language = ''python'', version = ''3.12'', os = ''windows10'',
       gpu = ''nvidia-gtx-1660'', ram = ''8gb'', packageManager = ''pip'', docker = False \<rparr>"

definition filledForm :: FormState where
  "filledForm =
     \<lparr> repoUrl = ''https://github.com/user/my-repo'',
       specs = \<lparr> language = ''python'', version = ''3.11'', os = ''ubuntu'', gpu = ''none'',
                 ram = ''16gb'', packageManager = '''', docker = False \<rparr> \<rparr>"

definition noRamForm :: FormState where
  "noRamForm =
     \<lparr> repoUrl = ''https://github.com/user/my-repo'',
       specs = \<lparr> language = ''python'', version = ''3.11'', os = ''ubuntu'', gpu = ''none'',
                 ram = '''', packageManager = ''pip'', docker = False \<rparr> \<rparr>"

text \<open>
  Two copies in a row: the run command is copied in the initial state, and 1500
  milliseconds later the install command is copied.
\<close>

definition firstCopied :: GuideState where
  "firstCopied = copyToClipboard Resolved ''python app.py'' ''Start Application'' initialGuide"

definition secondCopied :: GuideState where
  "secondCopied =
     copyToClipboard Resolved ''pip install torch transformers gradio accelerate''
       ''Install Dependencies'' (advance 1500 firstCopied)"

section \<open>Properties of the resolver\<close>

subsection \<open>Auxiliary facts\<close>

text \<open>The bundle takes its first seven fields unchanged from the language configuration.\<close>

lemma analyzeRepository_config:
  "techStack (analyzeRepository u sp) = techStack (getLanguageConfig sp)"
  "venvCommand (analyzeRepository u sp) = venvCommand (getLanguageConfig sp)"
  "installCommand (analyzeRepository u sp) = installCommand (getLanguageConfig sp)"
  "runCommand (analyzeRepository u sp) = runCommand (getLanguageConfig sp)"
  "accessUrl (analyzeRepository u sp) = accessUrl (getLanguageConfig sp)"
  "envSetup (analyzeRepository u sp) = envSetup (getLanguageConfig sp)"
  "troubleshooting (analyzeRepository u sp) = troubleshooting (getLanguageConfig sp)"
  by (simp_all add: analyzeRepository_def Let_def)

lemma analyzeRepository_lookups:
  "compatibility (analyzeRepository u sp) = ''95%''"
  "estimatedTime (analyzeRepository u sp) =
     (if language sp = ''rust'' then ''10-15 min''
      else if language sp = ''julia'' then ''8-12 min'' else ''5-10 min'')"
  "modelSize (analyzeRepository u sp) =
     (if language sp = ''javascript'' then ''200 MB'' else ''1.2 GB'')"
  by (simp_all add: analyzeRepository_def Let_def)

text \<open>Which case of the switch is taken.\<close>

lemma getLanguageConfig_cases:
  "language sp = ''python'' \<Longrightarrow> getLanguageConfig sp = pythonConfig sp"
  "language sp = ''javascript'' \<Longrightarrow> getLanguageConfig sp = javascriptConfig sp"
  "language sp = ''r'' \<Longrightarrow> getLanguageConfig sp = rConfig sp"
  "language sp = ''julia'' \<Longrightarrow> getLanguageConfig sp = juliaConfig sp"
  "language sp = ''rust'' \<Longrightarrow> getLanguageConfig sp = rustConfig sp"
  by (simp_all add: getLanguageConfig_def)

lemma getLanguageConfig_default:
  "language sp \<notin> {''python'', ''javascript'', ''r'', ''julia'', ''rust''}
   \<Longrightarrow> getLanguageConfig sp = defaultConfig"
  by (simp add: getLanguageConfig_def)

text \<open>What each case body reads from the selection.\<close>

lemma pythonConfig_cong:
  "version s1 = version s2 \<Longrightarrow> packageManager s1 = packageManager s2
   \<Longrightarrow> pythonConfig s1 = pythonConfig s2"
  unfolding pythonConfig_def by simp

lemma javascriptConfig_cong:
  "version s1 = version s2 \<Longrightarrow> packageManager s1 = packageManager s2
   \<Longrightarrow> javascriptConfig s1 = javascriptConfig s2"
  unfolding javascriptConfig_def by simp

lemma rConfig_const: "rConfig s1 = rConfig s2"
  unfolding rConfig_def by (rule refl)

lemma juliaConfig_cong: "version s1 = version s2 \<Longrightarrow> juliaConfig s1 = juliaConfig s2"
  unfolding juliaConfig_def by simp

lemma rustConfig_cong: "version s1 = version s2 \<Longrightarrow> rustConfig s1 = rustConfig s2"
  unfolding rustConfig_def by simp

lemma getLanguageConfig_cong:
  assumes "language s1 = language s2" and "version s1 = version s2"
    and "packageManager s1 = packageManager s2"
  shows "getLanguageConfig s1 = getLanguageConfig s2"
  unfolding getLanguageConfig_def
  using assms pythonConfig_cong[of s1 s2] javascriptConfig_cong[of s1 s2]
    rConfig_const[of s1 s2] juliaConfig_cong[of s1 s2] rustConfig_cong[of s1 s2]
  by simp

lemma techStack_getLanguageConfig: "techStack (getLanguageConfig sp) \<noteq> []"
  by (simp add: getLanguageConfig_def pythonConfig_def javascriptConfig_def rConfig_def
      juliaConfig_def rustConfig_def defaultConfig_def)

lemma runCommand_getLanguageConfig: "runCommand (getLanguageConfig sp) \<noteq> []"
  by (simp add: getLanguageConfig_def pythonConfig_def javascriptConfig_def rConfig_def
      juliaConfig_def rustConfig_def defaultConfig_def)

subsection \<open>Unknown languages\<close>

text \<open>
  Claim C1. \<open>analyzeRepository\<close> is a total function of \<open>(repoUrl, specs)\<close>: it has a
  bundle for every input. When \<open>specs.language\<close> is none of python, javascript, r,
  julia, rust, that bundle is the one built from the \<^verbatim>\<open>default\<close> case: the generic
  tech stack, the three commands that are shell comments, one environment step and
  one troubleshooting tip, together with the fixed lookup fields.
\<close>

theorem analyzeRepository_unknown_language:
  assumes "language sp \<notin> {''python'', ''javascript'', ''r'', ''julia'', ''rust''}"
  shows "analyzeRepository u sp =
     \<lparr> techStack = [''Generic ML Framework''],
       venvCommand = ''# Environment setup varies by language'',
       installCommand = ''# Install language-specific dependencies'',
       runCommand = ''# Run application'',
       accessUrl = ''http://localhost:8000'',
       envSetup = [''Configure your development environment''],
       troubleshooting = [''Check documentation for language-specific issues''],
       compatibility = ''95%'',
       estimatedTime = ''5-10 min'',
       modelSize = ''1.2 GB'',
       alternatives =
         [\<lparr> name = ''CodeSandbox'', description = ''Run in browser environment'',
            url = Some ''https://codesandbox.io'' \<rparr>,
          \<lparr> name = ''Hugging Face Spaces'',
            description = ''Deploy directly on Hugging Face infrastructure'',
            url = Some ''https://huggingface.co/spaces'' \<rparr>,
          \<lparr> name = ''Docker Container'',
            description = ''Use pre-built container with all dependencies'',
            url = None \<rparr>] \<rparr>"
  using assms by (simp add: analyzeRepository_def getLanguageConfig_def defaultConfig_def)

theorem analyzeRepository_unknown_language_witness:
  "language goSpecs \<notin> {''python'', ''javascript'', ''r'', ''julia'', ''rust''}
   \<and> techStack (analyzeRepository ''https://github.com/user/my-repo'' goSpecs)
       = [''Generic ML Framework'']
   \<and> runCommand (analyzeRepository ''https://github.com/user/my-repo'' goSpecs)
       = ''# Run application''
   \<and> length (envSetup (analyzeRepository ''https://github.com/user/my-repo'' goSpecs)) = 1
   \<and> length (troubleshooting (analyzeRepository ''https://github.com/user/my-repo'' goSpecs)) = 1"
proof -
  have h: "language goSpecs \<notin> {''python'', ''javascript'', ''r'', ''julia'', ''rust''}"
    by (simp add: goSpecs_def)
  show ?thesis
    using h analyzeRepository_unknown_language [OF h, of "''https://github.com/user/my-repo''"]
    by simp
qed

subsection \<open>The conda command\<close>

text \<open>
  Claim C2. With \<open>language = python\<close> and \<open>packageManager = conda\<close>, the bundle's
  \<open>venvCommand\<close> is \<^verbatim>\<open>conda create -n hf-app python=\<close> followed by the selected version
  string and the activation line; in particular it contains
  \<^verbatim>\<open>conda create -n hf-app python=<version>\<close> as a contiguous substring.
\<close>

theorem python_conda_venvCommand:
  assumes "language sp = ''python''" and "packageManager sp = ''conda''"
  shows "venvCommand (analyzeRepository u sp) =
           ''conda create -n hf-app python='' @ version sp @ ''\<newline>conda activate hf-app''
         \<and> sublist (''conda create -n hf-app python='' @ version sp)
              (venvCommand (analyzeRepository u sp))"
proof -
  have eq: "venvCommand (analyzeRepository u sp) =
      (''conda create -n hf-app python='' @ version sp) @ ''\<newline>conda activate hf-app''"
    using assms
    by (simp add: analyzeRepository_config getLanguageConfig_cases pythonConfig_def)
  have "sublist (''conda create -n hf-app python='' @ version sp)
      ((''conda create -n hf-app python='' @ version sp) @ ''\<newline>conda activate hf-app'')"
    by (rule prefix_imp_sublist) simp
  with eq show ?thesis by simp
qed

theorem python_conda_venvCommand_witness:
  "language condaSpecs = ''python'' \<and> packageManager condaSpecs = ''conda''
   \<and> venvCommand (analyzeRepository ''https://github.com/user/my-repo'' condaSpecs)
       = ''conda create -n hf-app python=3.10\<newline>conda activate hf-app''
   \<and> sublist ''conda create -n hf-app python=3.10''
        (venvCommand (analyzeRepository ''https://github.com/user/my-repo'' condaSpecs))"
proof -
  have h1: "language condaSpecs = ''python''" by (simp add: condaSpecs_def)
  have h2: "packageManager condaSpecs = ''conda''" by (simp add: condaSpecs_def)
  have v: "version condaSpecs = ''3.10''" by (simp add: condaSpecs_def)
  show ?thesis
    using h1 h2 python_conda_venvCommand [OF h1 h2, of "''https://github.com/user/my-repo''"]
    by (simp add: v)
qed

subsection \<open>Non-empty tech stack and run command\<close>

text \<open>
  Claim C3. For each of the five defined languages, whatever the version and the
  package manager, the bundle has a non-empty \<open>techStack\<close> and a non-empty \<open>runCommand\<close>.
\<close>

theorem defined_language_nonempty:
  assumes "language sp \<in> {''python'', ''javascript'', ''r'', ''julia'', ''rust''}"
  shows "techStack (analyzeRepository u sp) \<noteq> [] \<and> runCommand (analyzeRepository u sp) \<noteq> []"
  by (simp add: analyzeRepository_config techStack_getLanguageConfig
      runCommand_getLanguageConfig)

theorem defined_language_nonempty_witness:
  "language rustSpecs \<in> {''python'', ''javascript'', ''r'', ''julia'', ''rust''}
   \<and> techStack (analyzeRepository ''https://github.com/user/my-repo'' rustSpecs) \<noteq> []
   \<and> runCommand (analyzeRepository ''https://github.com/user/my-repo'' rustSpecs) \<noteq> []"
proof -
  have h: "language rustSpecs \<in> {''python'', ''javascript'', ''r'', ''julia'', ''rust''}"
    by (simp add: rustSpecs_def)
  show ?thesis
    using h defined_language_nonempty [OF h, of "''https://github.com/user/my-repo''"]
    by simp
qed

subsection \<open>The lookup fields\<close>

text \<open>
  Claim C4. \<open>modelSize\<close> and \<open>estimatedTime\<close> are fixed lookups on \<open>language\<close> alone.
  \<open>modelSize\<close> is \<^verbatim>\<open>200 MB\<close> for javascript and \<^verbatim>\<open>1.2 GB\<close> for every other language, an
  unknown one included. \<open>estimatedTime\<close> is \<^verbatim>\<open>10-15 min\<close> for rust and \<^verbatim>\<open>8-12 min\<close> for
  julia, both above the \<^verbatim>\<open>5-10 min\<close> that python, javascript and every other language
  get. Two selections with the same language therefore get the same two values,
  whatever else differs.
\<close>

theorem lookup_fields_by_language:
  "modelSize (analyzeRepository u sp) =
     (if language sp = ''javascript'' then ''200 MB'' else ''1.2 GB'')
   \<and> estimatedTime (analyzeRepository u sp) =
     (if language sp = ''rust'' then ''10-15 min''
      else if language sp = ''julia'' then ''8-12 min'' else ''5-10 min'')
   \<and> (language sp = language sp' \<longrightarrow>
        modelSize (analyzeRepository u sp) = modelSize (analyzeRepository u' sp')
        \<and> estimatedTime (analyzeRepository u sp) = estimatedTime (analyzeRepository u' sp'))"
  by (simp add: analyzeRepository_lookups)

theorem lookup_fields_by_language_witness:
  "language condaSpecs = language pipSpecs
   \<and> modelSize (analyzeRepository ''https://github.com/a/b'' condaSpecs) = ''1.2 GB''
   \<and> modelSize (analyzeRepository ''https://github.com/c/d.git'' pipSpecs) = ''1.2 GB''
   \<and> estimatedTime (analyzeRepository ''https://github.com/a/b'' condaSpecs) = ''5-10 min''
   \<and> estimatedTime (analyzeRepository ''https://github.com/c/d.git'' pipSpecs) = ''5-10 min''"
proof -
  have h: "language condaSpecs = language pipSpecs"
    by (simp add: condaSpecs_def pipSpecs_def)
  have l: "language condaSpecs = ''python''"
    by (simp add: condaSpecs_def)
  have l': "language pipSpecs = ''python''"
    by (simp add: pipSpecs_def)
  note t = lookup_fields_by_language [of "''https://github.com/a/b''" condaSpecs pipSpecs
      "''https://github.com/c/d.git''"]
  from t have a: "modelSize (analyzeRepository ''https://github.com/a/b'' condaSpecs) = ''1.2 GB''"
    by (simp add: l)
  from t have b: "estimatedTime (analyzeRepository ''https://github.com/a/b'' condaSpecs) = ''5-10 min''"
    by (simp add: l)
  from t h have c: "modelSize (analyzeRepository ''https://github.com/a/b'' condaSpecs)
      = modelSize (analyzeRepository ''https://github.com/c/d.git'' pipSpecs)
    \<and> estimatedTime (analyzeRepository ''https://github.com/a/b'' condaSpecs)
      = estimatedTime (analyzeRepository ''https://github.com/c/d.git'' pipSpecs)"
    by blast
  from h a b c show ?thesis by simp
qed

subsection \<open>Inputs the resolver ignores\<close>

text \<open>
  Claim C10. The bundle depends on \<open>language\<close>, \<open>version\<close> and \<open>packageManager\<close> only:
  two calls whose selections agree on these three return equal bundles, even when
  the repository URL, the operating system, the GPU, the RAM and the Docker flag all
  differ.
\<close>

theorem analyzeRepository_noninterference:
  assumes "language s1 = language s2" and "version s1 = version s2"
    and "packageManager s1 = packageManager s2"
  shows "analyzeRepository u1 s1 = analyzeRepository u2 s2"
  unfolding analyzeRepository_def
  using assms(1) getLanguageConfig_cong [OF assms]
  by simp

theorem analyzeRepository_noninterference_witness:
  "os rustSpecs \<noteq> os (rustSpecs\<lparr> os := ''macos'', gpu := ''apple-m1'', ram := ''8gb'', docker := True \<rparr>)
   \<and> analyzeRepository ''https://github.com/user/my-repo'' rustSpecs
     = analyzeRepository ''git@example.org:other/thing.git''
         (rustSpecs\<lparr> os := ''macos'', gpu := ''apple-m1'', ram := ''8gb'', docker := True \<rparr>)"
proof -
  let ?s2 = "rustSpecs\<lparr> os := ''macos'', gpu := ''apple-m1'', ram := ''8gb'', docker := True \<rparr>"
  have h1: "language rustSpecs = language ?s2" by simp
  have h2: "version rustSpecs = version ?s2" by simp
  have h3: "packageManager rustSpecs = packageManager ?s2" by simp
  have d: "os rustSpecs \<noteq> os ?s2" by (simp add: rustSpecs_def)
  show ?thesis
    using d analyzeRepository_noninterference [OF h1 h2 h3,
        of "''https://github.com/user/my-repo''" "''git@example.org:other/thing.git''"]
    by simp
qed

subsection \<open>Command variants and the version\<close>

text \<open>
  What the r, julia and rust cases read from the selection: the r case nothing, the
  julia and rust cases the version only.
\<close>

lemma analyzeRepository_r:
  assumes "language s1 = ''r''" and "language s2 = ''r''"
  shows "analyzeRepository u1 s1 = analyzeRepository u2 s2"
  unfolding analyzeRepository_def
  using assms rConfig_const [of s1 s2]
  by (simp add: getLanguageConfig_cases)

lemma analyzeRepository_julia_pm:
  assumes "language sp = ''julia''"
  shows "analyzeRepository u (sp\<lparr> packageManager := p \<rparr>) = analyzeRepository u sp"
  unfolding analyzeRepository_def
  using assms juliaConfig_cong [of "sp\<lparr> packageManager := p \<rparr>" sp]
  by (simp add: getLanguageConfig_cases)

lemma analyzeRepository_rust_pm:
  assumes "language sp = ''rust''"
  shows "analyzeRepository u (sp\<lparr> packageManager := p \<rparr>) = analyzeRepository u sp"
  unfolding analyzeRepository_def
  using assms rustConfig_cong [of "sp\<lparr> packageManager := p \<rparr>" sp]
  by (simp add: getLanguageConfig_cases)

text \<open>
  Claim C8 says that each of the five cases chooses between two command variants keyed
  on \<open>packageManager\<close> and interpolates the selected version into the setup steps.
  The r case does neither: two of the package managers the form offers for R,
  with two different versions, give the same bundle.
\<close>

theorem command_variants_counterexample:
  "language renvSpecs = ''r'' \<and> language pakSpecs = ''r''
   \<and> packageManager renvSpecs = ''renv'' \<and> packageManager pakSpecs = ''pak''
   \<and> version renvSpecs = ''4.3'' \<and> version pakSpecs = ''4.1''
   \<and> analyzeRepository ''https://github.com/user/my-repo'' renvSpecs
     = analyzeRepository ''https://github.com/user/my-repo'' pakSpecs"
proof -
  have a: "language renvSpecs = ''r''" by (simp add: renvSpecs_def)
  have b: "language pakSpecs = ''r''" by (simp add: pakSpecs_def)
  have c: "packageManager renvSpecs = ''renv'' \<and> packageManager pakSpecs = ''pak''
     \<and> version renvSpecs = ''4.3'' \<and> version pakSpecs = ''4.1''"
    by (simp add: renvSpecs_def pakSpecs_def)
  from a b c analyzeRepository_r [OF a b] show ?thesis by simp
qed

text \<open>The commands and the environment steps of the four cases that read the selection.\<close>

lemma python_variants:
  assumes "language sp = ''python''"
  shows "venvCommand (analyzeRepository u sp) =
        (if packageManager sp = ''conda''
         then ''conda create -n hf-app python='' @ version sp @ ''\<newline>conda activate hf-app''
         else ''python -m venv hf-app\<newline>source hf-app/bin/activate  # On Windows: hf-app''
              @ backslash @ ''Scripts'' @ backslash @ ''activate'')
      \<and> installCommand (analyzeRepository u sp) =
        (if packageManager sp = ''conda''
         then ''conda install pytorch transformers gradio -c pytorch -c huggingface''
         else ''pip install torch transformers gradio accelerate'')
      \<and> envSetup (analyzeRepository u sp) =
        [''Ensure you have at least 4GB of free disk space for models'',
         ''Set CUDA_VISIBLE_DEVICES if you have multiple GPUs'',
         ''Configure Hugging Face token if using gated models'',
         ''Install Git LFS for large model files if needed'']"
  using assms by (simp add: analyzeRepository_config getLanguageConfig_cases pythonConfig_def)

lemma javascript_variants:
  assumes "language sp = ''javascript''"
  shows "venvCommand (analyzeRepository u sp) =
        (if packageManager sp = ''yarn'' then ''yarn init -y'' else ''npm init -y'')
      \<and> installCommand (analyzeRepository u sp) =
        (if packageManager sp = ''yarn''
         then ''yarn add @huggingface/transformers @huggingface/hub express''
         else ''npm install @huggingface/transformers @huggingface/hub express'')
      \<and> envSetup (analyzeRepository u sp) =
        [''Ensure Node.js '' @ version sp @ '' is installed'',
         ''Install dependencies with your package manager'',
         ''Configure environment variables in .env file'',
         ''Set up CORS if accessing from browser'']"
  using assms by (simp add: analyzeRepository_config getLanguageConfig_cases javascriptConfig_def)

lemma julia_steps:
  assumes "language sp = ''julia''"
  shows "envSetup (analyzeRepository u sp) =
        [''Ensure Julia '' @ version sp @ '' is installed'',
         ''Create and activate project environment'',
         ''Install required Julia packages'',
         ''Configure CUDA.jl for GPU support if available'']"
  using assms by (simp add: analyzeRepository_config getLanguageConfig_cases juliaConfig_def)

lemma rust_steps:
  assumes "language sp = ''rust''"
  shows "envSetup (analyzeRepository u sp) =
        [''Ensure Rust '' @ version sp @ '' is installed'',
         ''Initialize Cargo project'',
         ''Add required dependencies to Cargo.toml'',
         ''Configure features for CUDA support if needed'']"
  using assms by (simp add: analyzeRepository_config getLanguageConfig_cases rustConfig_def)

text \<open>
  Claim C8, amended. Only the python and javascript cases choose between two command
  variants keyed on \<open>packageManager\<close>: conda against any other value for python, yarn
  against any other value for javascript. The julia and rust cases return the same
  bundle for every package manager, and the r case returns one fixed bundle. The
  selected version is interpolated into the first environment step in the
  javascript, julia and rust cases, and into \<open>venvCommand\<close> in the python case when the
  package manager is conda; the python environment steps are fixed.
\<close>

theorem command_variants_by_case:
  "(language sp = ''python'' \<longrightarrow>
      venvCommand (analyzeRepository u sp) =
        (if packageManager sp = ''conda''
         then ''conda create -n hf-app python='' @ version sp @ ''\<newline>conda activate hf-app''
         else ''python -m venv hf-app\<newline>source hf-app/bin/activate  # On Windows: hf-app''
              @ backslash @ ''Scripts'' @ backslash @ ''activate'')
      \<and> installCommand (analyzeRepository u sp) =
        (if packageManager sp = ''conda''
         then ''conda install pytorch transformers gradio -c pytorch -c huggingface''
         else ''pip install torch transformers gradio accelerate'')
      \<and> envSetup (analyzeRepository u sp) =
        [''Ensure you have at least 4GB of free disk space for models'',
         ''Set CUDA_VISIBLE_DEVICES if you have multiple GPUs'',
         ''Configure Hugging Face token if using gated models'',
         ''Install Git LFS for large model files if needed''])
   \<and> (language sp = ''javascript'' \<longrightarrow>
      venvCommand (analyzeRepository u sp) =
        (if packageManager sp = ''yarn'' then ''yarn init -y'' else ''npm init -y'')
      \<and> installCommand (analyzeRepository u sp) =
        (if packageManager sp = ''yarn''
         then ''yarn add @huggingface/transformers @huggingface/hub express''
         else ''npm install @huggingface/transformers @huggingface/hub express'')
      \<and> envSetup (analyzeRepository u sp) =
        [''Ensure Node.js '' @ version sp @ '' is installed'',
         ''Install dependencies with your package manager'',
         ''Configure environment variables in .env file'',
         ''Set up CORS if accessing from browser''])
   \<and> (language sp = ''r'' \<and> language sp' = ''r'' \<longrightarrow>
      analyzeRepository u sp = analyzeRepository u' sp')
   \<and> (language sp = ''julia'' \<longrightarrow>
      analyzeRepository u (sp\<lparr> packageManager := p \<rparr>) = analyzeRepository u sp
      \<and> envSetup (analyzeRepository u sp) =
        [''Ensure Julia '' @ version sp @ '' is installed'',
         ''Create and activate project environment'',
         ''Install required Julia packages'',
         ''Configure CUDA.jl for GPU support if available''])
   \<and> (language sp = ''rust'' \<longrightarrow>
      analyzeRepository u (sp\<lparr> packageManager := p \<rparr>) = analyzeRepository u sp
      \<and> envSetup (analyzeRepository u sp) =
        [''Ensure Rust '' @ version sp @ '' is installed'',
         ''Initialize Cargo project'',
         ''Add required dependencies to Cargo.toml'',
         ''Configure features for CUDA support if needed''])"
  using python_variants [of sp u] javascript_variants [of sp u]
    analyzeRepository_r [of sp sp' u u']
    analyzeRepository_julia_pm [of sp u p] julia_steps [of sp u]
    analyzeRepository_rust_pm [of sp u p] rust_steps [of sp u]
  by blast

theorem command_variants_by_case_witness:
  "language condaSpecs = ''python''
   \<and> venvCommand (analyzeRepository ''https://github.com/user/my-repo'' condaSpecs)
       = ''conda create -n hf-app python=3.10\<newline>conda activate hf-app''
   \<and> language yarnSpecs = ''javascript''
   \<and> installCommand (analyzeRepository ''https://github.com/user/my-repo'' yarnSpecs)
       = ''yarn add @huggingface/transformers @huggingface/hub express''
   \<and> hd (envSetup (analyzeRepository ''https://github.com/user/my-repo'' yarnSpecs))
       = ''Ensure Node.js 20 is installed''
   \<and> language renvSpecs = ''r'' \<and> language pakSpecs = ''r''
   \<and> analyzeRepository ''https://github.com/user/my-repo'' renvSpecs
       = analyzeRepository ''https://github.com/user/other'' pakSpecs
   \<and> language juliaSpecs = ''julia''
   \<and> hd (envSetup (analyzeRepository ''https://github.com/user/my-repo'' juliaSpecs))
       = ''Ensure Julia 1.9 is installed''
   \<and> language rustSpecs = ''rust''
   \<and> hd (envSetup (analyzeRepository ''https://github.com/user/my-repo'' rustSpecs))
       = ''Ensure Rust 1.75 is installed''"
proof -
  have py: "language condaSpecs = ''python''" "packageManager condaSpecs = ''conda''"
    "version condaSpecs = ''3.10''"
    by (simp_all add: condaSpecs_def)
  have js: "language yarnSpecs = ''javascript''" "packageManager yarnSpecs = ''yarn''"
    "version yarnSpecs = ''20''"
    by (simp_all add: yarnSpecs_def)
  have r: "language renvSpecs = ''r''" "language pakSpecs = ''r''"
    by (simp_all add: renvSpecs_def pakSpecs_def)
  have jl: "language juliaSpecs = ''julia''" "version juliaSpecs = ''1.9''"
    by (simp_all add: juliaSpecs_def)
  have rs: "language rustSpecs = ''rust''" "version rustSpecs = ''1.75''"
    by (simp_all add: rustSpecs_def)
  have 1: "venvCommand (analyzeRepository ''https://github.com/user/my-repo'' condaSpecs)
       = ''conda create -n hf-app python=3.10\<newline>conda activate hf-app''"
    using command_variants_by_case [of condaSpecs "''https://github.com/user/my-repo''"]
    by (simp add: py)
  have 2: "installCommand (analyzeRepository ''https://github.com/user/my-repo'' yarnSpecs)
       = ''yarn add @huggingface/transformers @huggingface/hub express''
     \<and> hd (envSetup (analyzeRepository ''https://github.com/user/my-repo'' yarnSpecs))
       = ''Ensure Node.js 20 is installed''"
    using command_variants_by_case [of yarnSpecs "''https://github.com/user/my-repo''"]
    by (simp add: js)
  have 3: "analyzeRepository ''https://github.com/user/my-repo'' renvSpecs
       = analyzeRepository ''https://github.com/user/other'' pakSpecs"
    using command_variants_by_case [of renvSpecs "''https://github.com/user/my-repo''"
        pakSpecs "''https://github.com/user/other''"] r
    by blast
  have 4: "hd (envSetup (analyzeRepository ''https://github.com/user/my-repo'' juliaSpecs))
       = ''Ensure Julia 1.9 is installed''"
    using command_variants_by_case [of juliaSpecs "''https://github.com/user/my-repo''"]
    by (simp add: jl)
  have 5: "hd (envSetup (analyzeRepository ''https://github.com/user/my-repo'' rustSpecs))
       = ''Ensure Rust 1.75 is installed''"
    using command_variants_by_case [of rustSpecs "''https://github.com/user/my-repo''"]
    by (simp add: rs)
  from py(1) js(1) r jl(1) rs(1) 1 2 3 4 5 show ?thesis by simp
qed

section \<open>Properties of the form\<close>

text \<open>
  Claim C6. Whatever the form state was, selecting a language leaves \<open>version\<close> and
  \<open>packageManager\<close> empty (the unset value) and stores the selected language, while
  \<open>repoUrl\<close>, \<open>os\<close>, \<open>gpu\<close>, \<open>ram\<close> and \<open>docker\<close> keep their values.
\<close>

theorem language_change_resets:
  "version (specs (onLanguageChange v st)) = ''''
   \<and> packageManager (specs (onLanguageChange v st)) = ''''
   \<and> language (specs (onLanguageChange v st)) = v
   \<and> repoUrl (onLanguageChange v st) = repoUrl st
   \<and> os (specs (onLanguageChange v st)) = os (specs st)
   \<and> gpu (specs (onLanguageChange v st)) = gpu (specs st)
   \<and> ram (specs (onLanguageChange v st)) = ram (specs st)
   \<and> docker (specs (onLanguageChange v st)) = docker (specs st)"
  by (simp add: onLanguageChange_def)

text \<open>
  Claim C7. With any of \<open>repoUrl\<close>, \<open>language\<close>, \<open>version\<close>, \<open>os\<close>, \<open>ram\<close> empty the submit
  control is disabled and \<open>handleSubmit\<close> makes no call to the analyzer. With all five
  set the control is disabled only while loading (so it is enabled when not loading),
  and \<open>handleSubmit\<close> calls the analyzer with the form's URL and selection. Neither
  \<open>packageManager\<close> nor \<open>gpu\<close> takes part in the test.
\<close>

theorem submit_requires_five_fields:
  "(repoUrl st = [] \<or> language (specs st) = [] \<or> version (specs st) = []
      \<or> os (specs st) = [] \<or> ram (specs st) = []
    \<longrightarrow> submitDisabled st isLoading \<and> handleSubmit st = None)
   \<and> (repoUrl st \<noteq> [] \<and> language (specs st) \<noteq> [] \<and> version (specs st) \<noteq> []
      \<and> os (specs st) \<noteq> [] \<and> ram (specs st) \<noteq> []
    \<longrightarrow> (submitDisabled st isLoading = isLoading)
        \<and> handleSubmit st = Some (repoUrl st, specs st))
   \<and> isFormValid (st\<lparr> specs := (specs st)\<lparr> packageManager := p, gpu := g \<rparr> \<rparr>) = isFormValid st"
  by (auto simp add: submitDisabled_def isFormValid_def handleSubmit_def truthy_def)

theorem submit_requires_five_fields_witness:
  "ram (specs noRamForm) = []
   \<and> submitDisabled noRamForm False \<and> handleSubmit noRamForm = None
   \<and> repoUrl filledForm \<noteq> [] \<and> language (specs filledForm) \<noteq> []
   \<and> version (specs filledForm) \<noteq> [] \<and> os (specs filledForm) \<noteq> []
   \<and> ram (specs filledForm) \<noteq> [] \<and> packageManager (specs filledForm) = []
   \<and> \<not> submitDisabled filledForm False
   \<and> handleSubmit filledForm = Some (repoUrl filledForm, specs filledForm)"
proof -
  have e: "ram (specs noRamForm) = []" by (simp add: noRamForm_def)
  have f: "repoUrl filledForm \<noteq> [] \<and> language (specs filledForm) \<noteq> []
      \<and> version (specs filledForm) \<noteq> [] \<and> os (specs filledForm) \<noteq> []
      \<and> ram (specs filledForm) \<noteq> []"
    by (simp add: filledForm_def)
  have p: "packageManager (specs filledForm) = []" by (simp add: filledForm_def)
  show ?thesis
    using e f p submit_requires_five_fields [of noRamForm False]
      submit_requires_five_fields [of filledForm False]
    by simp
qed

section \<open>Properties of the guide\<close>

subsection \<open>The directory of the clone command\<close>

lemma js_split_acc_nonempty: "js_split_acc sep cur s \<noteq> []"
  by (induction s arbitrary: cur) simp_all

lemma js_pop_js_split: "js_pop (js_split sep s) = Some (last (js_split sep s))"
  by (simp add: js_pop_def js_split_def js_split_acc_nonempty)

text \<open>
  \<open>js_replace\<close> rewrites at the leftmost position where the pattern starts, and
  returns the string unchanged when the pattern starts nowhere.
\<close>

lemma js_replace_first:
  assumes "\<forall>i<n. \<not> prefix pat (drop i s)" and "prefix pat (drop n s)" and "n \<le> length s"
  shows "js_replace pat rep s = take n s @ rep @ drop (n + length pat) s"
  using assms
proof (induction s arbitrary: n)
  case Nil
  then show ?case by simp
next
  case (Cons c cs)
  show ?case
  proof (cases n)
    case 0
    with Cons.prems show ?thesis by simp
  next
    case (Suc m)
    from Cons.prems(1) Suc have no: "\<not> prefix pat (c # cs)"
      by (metis drop0 zero_less_Suc)
    have "\<forall>i<m. \<not> prefix pat (drop i cs)"
    proof (intro allI impI)
      fix i assume "i < m"
      then have "Suc i < n" using Suc by simp
      with Cons.prems(1) have "\<not> prefix pat (drop (Suc i) (c # cs))" by blast
      then show "\<not> prefix pat (drop i cs)" by simp
    qed
    moreover from Cons.prems(2) Suc have "prefix pat (drop m cs)" by simp
    moreover from Cons.prems(3) Suc have "m \<le> length cs" by simp
    ultimately have "js_replace pat rep cs = take m cs @ rep @ drop (m + length pat) cs"
      by (rule Cons.IH)
    with no Suc show ?thesis by simp
  qed
qed

lemma js_replace_absent:
  assumes "\<forall>i\<le>length s. \<not> prefix pat (drop i s)"
  shows "js_replace pat rep s = s"
  using assms
proof (induction s)
  case Nil
  then show ?case by (auto simp add: prefix_def)
next
  case (Cons c cs)
  from Cons.prems have no: "\<not> prefix pat (c # cs)"
    by (metis drop0 le0)
  have "\<forall>i\<le>length cs. \<not> prefix pat (drop i cs)"
  proof (intro allI impI)
    fix i assume "i \<le> length cs"
    then have "Suc i \<le> length (c # cs)" by simp
    with Cons.prems have "\<not> prefix pat (drop (Suc i) (c # cs))" by blast
    then show "\<not> prefix pat (drop i cs)" by simp
  qed
  then have "js_replace pat rep cs = cs" by (rule Cons.IH)
  with no show ?case by simp
qed

text \<open>
  The code's directory name is the specified one whenever \<^verbatim>\<open>.git\<close> does not start
  inside the final segment before its last four characters.
\<close>

lemma dirName_matches_spec:
  assumes "\<forall>i < length (last (js_split (CHR ''/'') u)) - 4.
             \<not> prefix ''.git'' (drop i (last (js_split (CHR ''/'') u)))"
  shows "dirName u = spec_dirName u"
proof -
  define seg where "seg = last (js_split (CHR ''/'') u)"
  have H: "\<forall>i < length seg - 4. \<not> prefix ''.git'' (drop i seg)"
    using assms by (simp add: seg_def)
  have d: "dirName u = (if js_replace ''.git'' '''' seg = [] then ''repo''
                        else js_replace ''.git'' '''' seg)"
    by (simp add: dirName_def js_pop_js_split seg_def truthy_def)
  have s: "spec_dirName u =
      (if (if suffix ''.git'' seg then take (length seg - 4) seg else seg) = [] then ''repo''
       else (if suffix ''.git'' seg then take (length seg - 4) seg else seg))"
    by (simp add: spec_dirName_def Let_def seg_def)
  have "js_replace ''.git'' '''' seg =
      (if suffix ''.git'' seg then take (length seg - 4) seg else seg)"
  proof (cases "suffix ''.git'' seg")
    case True
    then obtain pre where pre: "seg = pre @ ''.git''" by (auto simp add: suffix_def)
    have n: "length seg - 4 = length pre" by (simp add: pre)
    have "js_replace ''.git'' '''' seg
        = take (length pre) seg @ '''' @ drop (length pre + length ''.git'') seg"
      by (rule js_replace_first) (use H n in \<open>simp_all add: pre\<close>)
    with True n show ?thesis by (simp add: pre)
  next
    case False
    have "\<forall>i\<le>length seg. \<not> prefix ''.git'' (drop i seg)"
    proof (intro allI impI notI)
      fix i assume i: "i \<le> length seg" and p: "prefix ''.git'' (drop i seg)"
      from p obtain r where r: "drop i seg = ''.git'' @ r" by (auto simp add: prefix_def)
      then have "length (drop i seg) = 4 + length r" by simp
      then have len: "length seg - i = 4 + length r" by simp
      then have "i \<le> length seg - 4" by arith
      moreover have "\<not> i < length seg - 4" using H p by blast
      ultimately have "i = length seg - 4" by simp
      with len have "length r = 0" by arith
      then have "r = []" by simp
      with r have "drop i seg = ''.git''" by simp
      then have "suffix ''.git'' seg" by (metis suffix_drop)
      with False show False by simp
    qed
    then have "js_replace ''.git'' '''' seg = seg" by (rule js_replace_absent)
    with False show ?thesis by simp
  qed
  with d s show ?thesis by simp
qed

text \<open>The example of the specification, with and without the suffix, and the default.\<close>

lemma dirName_my_repo:
  "dirName ''https://github.com/user/my-repo'' = ''my-repo''
   \<and> dirName ''https://github.com/user/my-repo.git'' = ''my-repo''
   \<and> dirName ''https://github.com/user/my-repo/'' = ''repo''
   \<and> cloneCommand ''https://github.com/user/my-repo''
       = ''git clone https://github.com/user/my-repo\<newline>cd my-repo''"
  by (simp add: cloneCommand_def dirName_def js_split_def js_pop_def truthy_def)

lemma js_split_github_io: "js_split (CHR ''/'') ''https://github.com/user/user.github.io''
   = [''https:'', '''', ''github.com'', ''user'', ''user.github.io'']"
  by (simp add: js_split_def)

text \<open>
  Claim C5 says that the directory name of the clone command is the URL's final path
  segment without a trailing \<^verbatim>\<open>.git\<close>, or \<^verbatim>\<open>repo\<close> when there is none. The code removes
  the first \<^verbatim>\<open>.git\<close> of the final segment wherever it stands: for a repository named
  \<^verbatim>\<open>user.github.io\<close>, which has no trailing \<^verbatim>\<open>.git\<close>, the command changes into
  \<^verbatim>\<open>userhub.io\<close>, not into the directory \<^verbatim>\<open>user.github.io\<close> that the claim describes.
\<close>

theorem dirName_inner_git:
  "dirName ''https://github.com/user/user.github.io'' = ''userhub.io''
   \<and> spec_dirName ''https://github.com/user/user.github.io'' = ''user.github.io''
   \<and> cloneCommand ''https://github.com/user/user.github.io''
       = ''git clone https://github.com/user/user.github.io\<newline>cd userhub.io''"
proof -
  have d: "dirName ''https://github.com/user/user.github.io'' = ''userhub.io''"
    by (simp add: dirName_def js_split_github_io js_pop_def truthy_def)
  have "\<not> suffix ''.git'' ''user.github.io''"
    by (simp add: suffix_to_prefix)
  then have s: "spec_dirName ''https://github.com/user/user.github.io'' = ''user.github.io''"
    by (simp add: spec_dirName_def js_split_github_io)
  from d s show ?thesis by (simp add: cloneCommand_def)
qed

subsection \<open>Timers\<close>

lemma runTimer_toasts: "toasts (runTimer a s) = toasts s"
  by (cases a) simp

lemma runTimer_clears: "copiedCommand (runTimer a s) = None"
  by (cases a) simp

lemma fold_runTimer_toasts: "toasts (fold runTimer acts s) = toasts s"
  by (induction acts arbitrary: s) (simp_all add: runTimer_toasts)

text \<open>Every callback clears the indicator, so all that matters is whether one ran.\<close>

lemma fold_runTimer_copied:
  "copiedCommand (fold runTimer acts s) = (if acts = [] then copiedCommand s else None)"
proof (induction acts rule: rev_induct)
  case Nil
  show ?case by simp
next
  case (snoc a acts)
  show ?case by (simp add: runTimer_clears)
qed

lemma sort_key_empty_iff: "sort_key f xs = [] \<longleftrightarrow> xs = []"
proof -
  have "length (sort_key f xs) = length xs" by simp
  then show ?thesis by (metis length_0_conv)
qed

lemma advance_copied:
  "copiedCommand (advance dt s) =
     (if \<exists>p \<in> set (timers s). fst p \<le> now s + dt then None else copiedCommand s)"
  by (simp add: advance_def Let_def fold_runTimer_copied sort_key_empty_iff filter_empty_conv)

lemma advance_toasts: "toasts (advance dt s) = toasts s"
  by (simp add: advance_def Let_def fold_runTimer_toasts)

subsection \<open>The copy operation\<close>

text \<open>
  What one call does, in any state. When the clipboard write succeeds, the indicator
  of the given label is set at once, a success notification naming the label is
  emitted, and once 2000 milliseconds or more have passed the indicator is cleared;
  it stays until then when no timer of an earlier copy falls due in between. When the
  write fails, the indicator is left as it was, no timer is started, and an error
  notification of the destructive variant is emitted.
\<close>

lemma copyToClipboard_outcomes:
  "copiedCommand (copyToClipboard Resolved t l s) = Some l
   \<and> toasts (copyToClipboard Resolved t l s) =
       toasts s @ [\<lparr> title = ''Copied to clipboard'',
                      toastDescription = l @ '' command copied successfully'',
                      variant = None \<rparr>]
   \<and> (2000 \<le> dt \<longrightarrow> copiedCommand (advance dt (copyToClipboard Resolved t l s)) = None)
   \<and> ((\<forall>p \<in> set (timers s). now s + dt < fst p) \<and> dt < 2000 \<longrightarrow>
        copiedCommand (advance dt (copyToClipboard Resolved t l s)) = Some l)
   \<and> copiedCommand (copyToClipboard Rejected t l s) = copiedCommand s
   \<and> timers (copyToClipboard Rejected t l s) = timers s
   \<and> toasts (copyToClipboard Rejected t l s) =
       toasts s @ [\<lparr> title = ''Failed to copy'',
                      toastDescription = ''Could not copy to clipboard'',
                      variant = Some ''destructive'' \<rparr>]"
proof -
  have a: "copiedCommand (advance dt (copyToClipboard Resolved t l s)) = None"
    if "2000 \<le> dt"
    using that by (simp add: copyToClipboard_def advance_copied)
  have b: "copiedCommand (advance dt (copyToClipboard Resolved t l s)) = Some l"
    if "\<forall>p \<in> set (timers s). now s + dt < fst p" and "dt < 2000"
  proof -
    have "\<not> (\<exists>p \<in> set (timers (copyToClipboard Resolved t l s)).
        fst p \<le> now (copyToClipboard Resolved t l s) + dt)"
      using that by (fastforce simp add: copyToClipboard_def)
    then show ?thesis
      by (simp add: advance_copied) (simp add: copyToClipboard_def)
  qed
  show ?thesis
    using a b by (simp add: copyToClipboard_def)
qed

lemma copyToClipboard_single_copy:
  "timers initialGuide = [] \<and> (1999::nat) < 2000
   \<and> showsCopied ''Start Application''
       (copyToClipboard Resolved ''cargo run'' ''Start Application'' initialGuide)
   \<and> showsCopied ''Start Application''
       (advance 1999 (copyToClipboard Resolved ''cargo run'' ''Start Application'' initialGuide))
   \<and> \<not> showsCopied ''Start Application''
       (advance 2000 (copyToClipboard Resolved ''cargo run'' ''Start Application'' initialGuide))
   \<and> \<not> showsCopied ''Start Application''
       (copyToClipboard Rejected ''cargo run'' ''Start Application'' initialGuide)"
proof -
  have h: "(\<forall>p \<in> set (timers initialGuide). now initialGuide + 1999 < fst p) \<and> (1999::nat) < 2000"
    by (simp add: initialGuide_def)
  have n: "copiedCommand initialGuide = None"
    by (simp add: initialGuide_def)
  have e: "timers initialGuide = []"
    by (simp add: initialGuide_def)
  show ?thesis
    using h n e
      copyToClipboard_outcomes [where s = initialGuide and dt = 1999
        and t = "''cargo run''" and l = "''Start Application''"]
      copyToClipboard_outcomes [where s = initialGuide and dt = 2000
        and t = "''cargo run''" and l = "''Start Application''"]
    by (simp add: showsCopied_def)
qed

text \<open>
  Claim C9 says that after a successful copy the label's indicator is set and is
  cleared after the fixed 2-second duration. The code sets it and starts a 2000
  millisecond timer, but the timer carries no label and an earlier one is never
  cancelled. When a second command is copied 1500 milliseconds after a first, the
  second label's indicator is set and still shown 499 milliseconds later; one
  millisecond on, the first copy's timer falls due and clears it, 500 milliseconds
  after it was set, while the second copy's own timer is still pending and due
  1500 milliseconds later.
\<close>

theorem copy_indicator_cleared_early:
  "now secondCopied = 1500
   \<and> showsCopied ''Install Dependencies'' secondCopied
   \<and> timers secondCopied = [(2000, ClearCopied), (3500, ClearCopied)]
   \<and> showsCopied ''Install Dependencies'' (advance 499 secondCopied)
   \<and> now (advance 500 secondCopied) = 2000
   \<and> copiedCommand (advance 500 secondCopied) = None
   \<and> timers (advance 500 secondCopied) = [(3500, ClearCopied)]"
proof -
  have f: "firstCopied =
      \<lparr> copiedCommand = Some ''Start Application'',
        toasts = [\<lparr> title = ''Copied to clipboard'',
                    toastDescription = ''Start Application command copied successfully'',
                    variant = None \<rparr>],
        timers = [(2000, ClearCopied)], now = 0 \<rparr>"
    by (simp add: firstCopied_def copyToClipboard_def initialGuide_def)
  have a: "copiedCommand (advance 1500 firstCopied) = Some ''Start Application''
      \<and> timers (advance 1500 firstCopied) = [(2000, ClearCopied)]
      \<and> now (advance 1500 firstCopied) = 1500"
    by (simp add: f advance_def)
  have s: "copiedCommand secondCopied = Some ''Install Dependencies''
      \<and> timers secondCopied = [(2000, ClearCopied), (3500, ClearCopied)]
      \<and> now secondCopied = 1500"
    using a by (simp add: secondCopied_def copyToClipboard_def)
  have b: "copiedCommand (advance 499 secondCopied) = Some ''Install Dependencies''"
    using s by (simp add: advance_copied)
  have c: "copiedCommand (advance 500 secondCopied) = None"
    using s by (simp add: advance_copied)
  have d: "timers (advance 500 secondCopied) = [(3500, ClearCopied)]
      \<and> now (advance 500 secondCopied) = 2000"
    using s by (simp add: advance_def)
  from s b c d show ?thesis by (simp add: showsCopied_def)
qed

end
